theory Spec2Isabelle
  imports Complex_Main "HOL-Library.Monad_Syntax"
begin

section \<open>Numerical model\<close>

text \<open>
  The transport-map core of \<^verbatim>\<open>src/cpbd/high_order.py\<close> is embedded over exact real
  arithmetic: a Python or numpy float is a \<^typ>\<open>real\<close>, so rounding and overflow are outside
  the model.  A division whose divisor is zero, and \<^verbatim>\<open>tan\<close> at a pole, are not total-function
  values here: a function that evaluates one returns \<^term>\<open>None\<close> (in the program the result
  is a raised \<^verbatim>\<open>ZeroDivisionError\<close> or a non-finite number).  Each definition lists, in the
  guard that yields \<^term>\<open>None\<close>, exactly the non-constant divisors of the source lines it
  embeds; below the guard the formulas are written as in the source.
\<close>

subsection \<open>Arrays\<close>

text \<open>
  \<^verbatim>\<open>eye(6)\<close> and \<^verbatim>\<open>zeros((6,6,6))\<close>: a matrix is a function of an index pair, a tensor of
  an index triple; only indices below 6 exist in the program.  An item assignment
  \<^verbatim>\<open>T[i,j,k] = v\<close> is a function update.
\<close>

type_synonym matrix = "nat \<times> nat \<Rightarrow> real"
type_synonym tensor = "nat \<times> nat \<times> nat \<Rightarrow> real"

definition eye6 :: matrix where
  "eye6 = (\<lambda>(i, j). if i = j then 1 else 0)"

definition zeros666 :: tensor where
  "zeros666 = (\<lambda>_. 0)"

definition dot6 :: "matrix \<Rightarrow> matrix \<Rightarrow> matrix" where
  "dot6 A B = (\<lambda>(i, j). \<Sum>k\<in>{0..<6}. A (i, k) * B (k, j))"




section \<open>Fringe-field corrector\<close>

text \<open>
  The angle correction \<^verbatim>\<open>phi\<close> of lines 436 and 464, with \<^verbatim>\<open>sec_e\<close> written out; the
  statements about the two functions name it.
\<close>

definition fringe_phi :: "real \<Rightarrow> real \<Rightarrow> real \<Rightarrow> real \<Rightarrow> real" where
  "fringe_phi h e gap fint = fint*h*gap*(1/cos e)*(1 + (sin e)^2)"

text \<open>
  \<^verbatim>\<open>fringe_ent\<close> (lines 429-455).  Divisors: \<^verbatim>\<open>cos(e)\<close> in \<^verbatim>\<open>sec_e\<close> and in \<^verbatim>\<open>tan(e)\<close>;
  \<^verbatim>\<open>cos(e - phi)\<close> in \<^verbatim>\<open>tan(e - phi)\<close> and in the last tensor entry.
\<close>

definition fringe_ent :: "real \<Rightarrow> real \<Rightarrow> real \<Rightarrow> real \<Rightarrow> real \<Rightarrow> real \<Rightarrow> (matrix \<times> tensor) option" where
  "fringe_ent h k1 e h_pole gap fint =
    (if cos e = 0 then None else
     let sec_e = 1/cos e;
         sec_e2 = sec_e*sec_e;
         sec_e3 = sec_e2*sec_e;
         tan_e = tan e;
         tan_e2 = tan_e*tan_e;
         phi = fint*h*gap*sec_e*(1 + (sin e)^2)
     in if cos (e - phi) = 0 then None else
     let R = eye6((1, 0) := h*tan_e, (3, 2) := - h*tan (e - phi));
         T = zeros666
           ((0, 0, 0) := - h/2*tan_e2,
            (0, 2, 2) := h/2*sec_e2,
            (1, 0, 0) := h/2*h_pole*sec_e3 + k1*tan_e,
            (1, 0, 1) := h*tan_e2,
            (1, 0, 5) := - h*tan_e,
            (1, 2, 2) := (- k1 + h*h/2 + h*h*tan_e2)*tan_e - h/2*h_pole*sec_e3,
            (1, 2, 3) := - h*tan_e2,
            (2, 0, 2) := h*tan_e2,
            (3, 0, 2) := - h*h_pole*sec_e3 - 2*k1*tan_e,
            (3, 0, 3) := - h*tan_e2,
            (3, 1, 2) := - h*sec_e2,
            (3, 2, 5) := h*tan_e - h*phi/(cos (e - phi))^2)
     in Some (R, T))"

text \<open>\<^verbatim>\<open>fringe_ext\<close> (lines 457-484); the same divisors.\<close>

definition fringe_ext :: "real \<Rightarrow> real \<Rightarrow> real \<Rightarrow> real \<Rightarrow> real \<Rightarrow> real \<Rightarrow> (matrix \<times> tensor) option" where
  "fringe_ext h k1 e h_pole gap fint =
    (if cos e = 0 then None else
     let sec_e = 1/cos e;
         sec_e2 = sec_e*sec_e;
         sec_e3 = sec_e2*sec_e;
         tan_e = tan e;
         tan_e2 = tan_e*tan_e;
         phi = fint*h*gap*sec_e*(1 + (sin e)^2)
     in if cos (e - phi) = 0 then None else
     let R = eye6((1, 0) := h*tan_e, (3, 2) := - h*tan (e - phi));
         T = zeros666
           ((0, 0, 0) := h/2*tan_e2,
            (0, 2, 2) := - h/2*sec_e2,
            (1, 0, 0) := h/2*h_pole*sec_e3 - (- k1 + h*h/2*tan_e2)*tan_e,
            (1, 0, 1) := - h*tan_e2,
            (1, 0, 5) := - h*tan_e,
            (1, 2, 2) := (- k1 - h*h/2*tan_e2)*tan_e - h/2*h_pole*sec_e3,
            (1, 2, 3) := h*tan_e2,
            (2, 0, 2) := - h*tan_e2,
            (3, 0, 2) := - h*h_pole*sec_e3 + (- k1 + h*h*sec_e2)*tan_e,
            (3, 0, 3) := h*tan_e2,
            (3, 1, 2) := h*sec_e2,
            (3, 2, 5) := h*tan_e - h*phi/(cos (e - phi))^2)
     in Some (R, T))"

section \<open>Closed-form map builder\<close>

text \<open>
  \<^verbatim>\<open>t_nnn\<close> (lines 79-426), in the order of the source.  The values of one block of the
  source are one tuple, named as in the source.  \<^verbatim>\<open>kx\<close> and \<^verbatim>\<open>ky\<close> are complex
  (\<^verbatim>\<open>sqrt(kx2 + 0.j)\<close> is the principal square root), so that \<^verbatim>\<open>cos(kx*L).real\<close> is the
  hyperbolic cosine when \<^verbatim>\<open>kx2\<close> is negative.
\<close>

type_synonym t_basis =
  "real \<times> real \<times> real \<times> real \<times> complex \<times> complex \<times> real \<times> real \<times> real \<times> real \<times> real \<times> real"

text \<open>
  Lines 91-112.  Divisors: \<^verbatim>\<open>kx\<close> (under the test \<^verbatim>\<open>kx != 0\<close>), \<^verbatim>\<open>ky\<close> (under
  \<^verbatim>\<open>ky != 0\<close>), \<^verbatim>\<open>kx2\<close> (under \<^verbatim>\<open>kx != 0\<close>).
\<close>

definition t_nnn_basis :: "real \<Rightarrow> real \<Rightarrow> real \<Rightarrow> t_basis option" where
  "t_nnn_basis L h k1 =
    (let kx2 = k1 + h*h;
         ky2 = - k1;
         kx4 = kx2*kx2;
         ky4 = ky2*ky2;
         kx = csqrt (complex_of_real kx2 + 0);
         ky = csqrt (complex_of_real ky2 + 0)
     in if kx \<noteq> 0 \<and> kx2 = 0 then None else
     let cx = Re (cos (kx*complex_of_real L));
         sx = (if kx \<noteq> 0 then Re (sin (kx*complex_of_real L)/kx) else L);
         cy = Re (cos (ky*complex_of_real L));
         sy = (if ky \<noteq> 0 then Re (sin (ky*complex_of_real L)/ky) else L);
         dx = (if kx \<noteq> 0 then h/kx2*(1 - cx) else L*L*h/2);
         dx_h = (if kx \<noteq> 0 then (1 - cx)/kx2 else L*L/2)
     in Some (kx2, ky2, kx4, ky4, kx, ky, cx, sx, cy, sy, dx, dx_h))"

type_synonym t_intA =
  "real \<times> real \<times> real \<times> real \<times> real \<times> real \<times> real \<times> real \<times> real \<times> real \<times> real \<times> real \<times> real
   \<times> real \<times> real \<times> real \<times> real"

text \<open>Lines 114-134.  Divisor: \<^verbatim>\<open>2.*ky2\<close> (under \<^verbatim>\<open>ky != 0\<close>).\<close>

definition t_nnn_intA :: "real \<Rightarrow> real \<Rightarrow> t_basis \<Rightarrow> t_intA option" where
  "t_nnn_intA L h = (\<lambda>(kx2, ky2, kx4, ky4, kx, ky, cx, sx, cy, sy, dx, dx_h).
    (let sx2 = sx*sx;
         L2 = L*L;
         L3 = L2*L
     in if ky \<noteq> 0 \<and> 2*ky2 = 0 then None else
     let I111 = 1/3*(sx2 + dx_h);
         I122 = dx_h*dx_h/3;
         I112 = sx*dx_h/3;
         I11 = L*sx/2;
         I10 = dx_h;
         I33 = L*sy/2;
         I34 = (if ky \<noteq> 0 then (sy - L*cy)/(2*ky2) else L3/6);
         I211 = sx/3*(1 + 2*cx);
         I222 = 2*dx_h*sx/3;
         I212 = 1/3*(2*sx2 - dx_h);
         I21 = 1/2*(L*cx + sx);
         I22 = I11;
         I20 = sx;
         I43 = 0.5*(L*cy + sy);
         I44 = I33;
         I512 = h*dx_h*dx_h/6;
         I51 = L*dx/2
     in Some (I111, I122, I112, I11, I10, I33, I34, I211, I222, I212, I21, I22, I20, I43, I44,
              I512, I51)))"

type_synonym t_intB =
  "real \<times> real \<times> real \<times> real \<times> real \<times> real \<times> real \<times> real \<times> real \<times> real \<times> real \<times> real \<times> real
   \<times> real \<times> real \<times> real \<times> real"

text \<open>
  Lines 136-175.  Divisors, all in the branch \<^verbatim>\<open>kx != 0\<close>: \<^verbatim>\<open>kx2\<close>, \<^verbatim>\<open>kx4\<close>,
  \<^verbatim>\<open>2.*kx2\<close>, \<^verbatim>\<open>6.*kx2\<close>, \<^verbatim>\<open>6.*kx4\<close>, \<^verbatim>\<open>2.*kx4\<close>.
\<close>

definition t_nnn_intB :: "real \<Rightarrow> real \<Rightarrow> t_basis \<Rightarrow> t_intA \<Rightarrow> t_intB option" where
  "t_nnn_intB L h = (\<lambda>(kx2, ky2, kx4, ky4, kx, ky, cx, sx, cy, sy, dx, dx_h)
      (I111, I122, I112, I11, I10, I33, I34, I211, I222, I212, I21, I22, I20, I43, I44, I512, I51).
    (let h2 = h*h;
         L2 = L*L;
         L3 = L2*L;
         L4 = L3*L;
         L5 = L4*L
     in if kx \<noteq> 0 then
       (if kx2 = 0 \<or> kx4 = 0 then None else
        let I116 = h/kx2*(I11 - I111);
            I12 = 0.5/kx2*(sx - L*cx);
            I126 = h/kx2*(I12 - I112);
            I16 = h/kx2*(dx_h - L*sx/2);
            I166 = h2/kx4*(I10 - 2*I11 + I111);
            I216 = h/kx2*(I21 - I211);
            I226 = h/kx2*(I22 - I212);
            I26 = h/(2*kx2)*(sx - L*cx);
            I266 = h2/kx4*(I20 - 2*I21 + I211);
            I511 = h*(3*L - 2*sx - sx*cx)/(6*kx2);
            I522 = h*(3*L - 4*sx + sx*cx)/(6*kx4);
            I516 = h/kx2*(I51 - I511);
            I52 = (2*dx - h*L*sx)/(2*kx2);
            I526 = h/kx2*(I52 - I512);
            I50 = h*(L - sx)/kx2;
            I566 = h2/kx4*(I50 - 2*I51 + I511);
            I56 = (h2*(L*(1 + cx) - 2*sx))/(2*kx4)
        in Some (I116, I12, I126, I16, I166, I216, I226, I26, I266, I511, I522, I516, I52, I526,
                 I50, I566, I56))
     else
       (let I116 = h*L4/24;
            I12 = L3/6;
            I126 = h*L5/40;
            I16 = h*L4/24;
            I166 = h2*L5*L/120;
            I216 = h*L3/6;
            I226 = h*L4/8;
            I26 = h*L3/6;
            I266 = h2*L5/20;
            I511 = h*L3/6;
            I522 = h*L5/60;
            I516 = h2*L5/120;
            I52 = h*L4/24;
            I526 = h2*L5*L/240;
            I50 = h*L3/6;
            I566 = h2*h*L5*L2/840;
            I56 = h2*L5/120
        in Some (I116, I12, I126, I16, I166, I216, I226, I26, I266, I511, I522, I516, I52, I526,
                 I50, I566, I56))))"

type_synonym t_intC =
  "real \<times> real \<times> real \<times> real \<times> real \<times> real \<times> real \<times> real \<times> real \<times> real \<times> real \<times> real \<times> real
   \<times> real"

text \<open>
  Lines 177-225.  Divisors: \<^verbatim>\<open>denom\<close> in the first branch; \<^verbatim>\<open>kx2\<close> and \<^verbatim>\<open>kx4\<close> in the
  second.
\<close>

definition t_nnn_intC :: "real \<Rightarrow> t_basis \<Rightarrow> t_intC option" where
  "t_nnn_intC L = (\<lambda>(kx2, ky2, kx4, ky4, kx, ky, cx, sx, cy, sy, dx, dx_h).
    (let sy2 = sy*sy;
         L2 = L*L;
         L3 = L2*L;
         L4 = L3*L;
         denom = kx2 - 4*ky2
     in if kx \<noteq> 0 \<and> ky \<noteq> 0 then
       (if denom = 0 then None else
        let I144 = (sy2 - 2*dx_h)/denom;
            I133 = dx_h - ky2*(sy2 - 2*dx_h)/denom;
            I134 = (sy*cy - sx)/denom;
            I313 = (kx2*cy*dx_h - 2*ky2*sx*sy)/denom;
            I324 = (2*cy*dx_h - sx*sy)/denom;
            I314 = (2*cy*sx - (1 + cx)*sy)/denom;
            I323 = (sy - cy*sx - 2*ky2*sy*dx_h)/denom;
            I244 = 2*(cy*sy - sx)/denom;
            I233 = sx - 2*ky2*(cy*sy - sx)/denom;
            I234 = (kx2*dx_h - 2*ky2*sy2)/denom;
            I413 = ((kx2 - 2*ky2)*cy*sx - ky2*sy*(1 + cx))/denom;
            I424 = (cy*sx - cx*sy - 2*ky2*sy*dx_h)/denom;
            I414 = ((kx2 - 2*ky2)*sx*sy - (1 - cx)*cy)/denom;
            I423 = (cy*dx_h*(kx2 - 2*ky2) - ky2*sx*sy)/denom
        in Some (I144, I133, I134, I313, I324, I314, I323, I244, I233, I234, I413, I424, I414,
                 I423))
     else if kx \<noteq> 0 \<and> ky = 0 then
       (if kx2 = 0 \<or> kx4 = 0 then None else
        let I323 = (L - sx)/kx2;
            I324 = 2*(1 - cx)/kx4 - L*sx/kx2;
            I314 = (2*sx - L*(1 + cx))/kx2;
            I313 = (1 - cx)/kx2;
            I144 = (- 2 + kx2*L2 + 2*cx)/kx4;
            I133 = (1 - cx)/kx2;
            I134 = (L - sx)/kx2;
            I423 = (1 - cx)/kx2;
            I424 = (sx - L*cx)/kx2;
            I414 = (cx - 1)/kx2 + L*sx;
            I413 = sx;
            I244 = (2*L - 2*sx)/kx2;
            I233 = sx;
            I234 = (1 - cx)/kx2
        in Some (I144, I133, I134, I313, I324, I314, I323, I244, I233, I234, I413, I424, I414,
                 I423))
     else
       (let I144 = L4/12;
            I133 = L2/2;
            I134 = L3/6;
            I313 = L2/2;
            I324 = L4/12;
            I314 = L3/6;
            I323 = L3/6;
            I244 = L3/3;
            I233 = L;
            I234 = L2/2;
            I413 = L;
            I424 = L3/3;
            I414 = L2/2;
            I423 = L2/2
        in Some (I144, I133, I134, I313, I324, I314, I323, I244, I233, I234, I413, I424, I414,
                 I423))))"

type_synonym t_intD = "real \<times> real \<times> real \<times> real \<times> real \<times> real \<times> real"

text \<open>
  Lines 228-256.  Divisors: \<^verbatim>\<open>24.*ky2\<close>, \<^verbatim>\<open>24.*ky4\<close> and \<^verbatim>\<open>8.*ky2\<close> in the first branch;
  \<^verbatim>\<open>kx2\<close>, \<^verbatim>\<open>2.*denom*kx2\<close>, \<^verbatim>\<open>2*denom\<close> and \<^verbatim>\<open>denom\<close> in the last.
\<close>

definition t_nnn_intD :: "real \<Rightarrow> real \<Rightarrow> t_basis \<Rightarrow> t_intA \<Rightarrow> t_intC \<Rightarrow> t_intD option" where
  "t_nnn_intD L h = (\<lambda>(kx2, ky2, kx4, ky4, kx, ky, cx, sx, cy, sy, dx, dx_h)
      (I111, I122, I112, I11, I10, I33, I34, I211, I222, I212, I21, I22, I20, I43, I44, I512, I51)
      (I144, I133, I134, I313, I324, I314, I323, I244, I233, I234, I413, I424, I414, I423).
    (let sy2 = sy*sy;
         L2 = L*L;
         L3 = L2*L;
         L4 = L3*L;
         L5 = L4*L;
         denom = kx2 - 4*ky2
     in if kx = 0 \<and> ky \<noteq> 0 then
       (if 24*ky2 = 0 \<or> 24*ky4 = 0 \<or> 8*ky2 = 0 then None else
        let I336 = (h*L*(3*L*cy + (2*ky2*L2 - 3)*sy))/(24*ky2);
            I346 = (h*((3 - 2*ky2*L2)*L*cy + 3*(ky2*L2 - 1)*sy))/(24*ky4);
            I436 = I346;
            I446 = (h*L*(- 3*L*cy + (3 + 2*ky2*L2)*sy))/(24*ky2);
            I533 = (h*(3*L + 2*ky2*L3 - 3*sy*cy))/(24*ky2);
            I534 = (h*(L2 - sy2))/(8*ky2);
            I544 = (h*(- 3*L + 2*ky2*L3 + 3*sy*cy))/(24*ky4)
        in Some (I336, I346, I436, I446, I533, I534, I544))
     else if kx = 0 \<and> ky = 0 then
       (let I336 = (h*L4)/24;
            I346 = (h*L5)/40;
            I436 = (h*L3)/6;
            I446 = (h*L4)/8;
            I533 = h*L3/6;
            I534 = h*L4/24;
            I544 = h*L5/60
        in Some (I336, I346, I436, I446, I533, I534, I544))
     else
       (if kx2 = 0 \<or> 2*denom*kx2 = 0 \<or> 2*denom = 0 \<or> denom = 0 then None else
        let I336 = h/kx2*(I33 - I313);
            I346 = h/kx2*(I34 - I314);
            I436 = h/kx2*(I43 - I413);
            I446 = h/kx2*(I44 - I414);
            I533 = (h*(denom*L - 2*(denom + 2*ky2)*sx + kx2*cy*sy))/(2*denom*kx2);
            I534 = (h*sy2 - 2*dx)/(2*denom);
            I544 = (sy2 - 2*dx_h)/denom
        in Some (I336, I346, I436, I446, I533, I534, I544))))"

text \<open>
  Lines 258-381: the second-order terms and the tensor.  Divisor: \<^verbatim>\<open>4.*kx2\<close> in \<^verbatim>\<open>i566\<close>
  (under \<^verbatim>\<open>kx != 0\<close>).  Only entries \<^verbatim>\<open>T[i, j, k]\<close> with \<open>j \<le> k\<close> are assigned.
\<close>

definition t_nnn_tensor ::
  "real \<Rightarrow> real \<Rightarrow> real \<Rightarrow> t_basis \<Rightarrow> t_intA \<Rightarrow> t_intB \<Rightarrow> t_intC \<Rightarrow> t_intD \<Rightarrow> tensor option" where
  "t_nnn_tensor L h k2 = (\<lambda>(kx2, ky2, kx4, ky4, kx, ky, cx, sx, cy, sy, dx, dx_h)
      (I111, I122, I112, I11, I10, I33, I34, I211, I222, I212, I21, I22, I20, I43, I44, I512, I51)
      (I116, I12, I126, I16, I166, I216, I226, I26, I266, I511, I522, I516, I52, I526, I50, I566,
       I56)
      (I144, I133, I134, I313, I324, I314, I323, I244, I233, I234, I413, I424, I414, I423)
      (I336, I346, I436, I446, I533, I534, I544).
    (let h2 = h*h;
         h3 = h2*h;
         sx2 = sx*sx;
         sy2 = sy*sy;
         L2 = L*L;
         L3 = L2*L;
         K2 = k2/2;
         coef1 = 2*ky2*h - h3 - K2;
         coef3 = 2*h2 - ky2;
         t111 = coef1*I111 + h*kx4*I122/2;
         t112 = 2*coef1*I112 - h*kx2*I112;
         t116 = 2*coef1*I116 + coef3*I11 - h2*kx2*I122;
         t122 = coef1*I122 + 0.5*h*I111;
         t126 = 2*coef1*I126 + coef3*I12 + h2*I112;
         t166 = coef1*I166 + coef3*I16 + 0.5*h3*I122 - h*I10;
         t133 = K2*I133 - ky2*h*I10/2;
         t134 = 2*K2*I134;
         t144 = K2*I144 - h*I10/2;
         t211 = coef1*I211 + h*kx4*I222/2;
         t212 = 2*coef1*I212 - h*kx2*I212;
         t216 = 2*coef1*I216 + coef3*I21 - h2*kx2*I222;
         t222 = coef1*I222 + 0.5*h*I211;
         t226 = 2*coef1*I226 + coef3*I22 + h2*I212;
         t266 = coef1*I266 + coef3*I26 + 0.5*h3*I222 - h*I20;
         t233 = K2*I233 - ky2*h*I20/2;
         t234 = 2*K2*I234;
         t244 = K2*I244 - h*I20/2;
         coef2 = 2*(K2 - ky2*h);
         t313 = coef2*I313 + h*kx2*ky2*I324;
         t314 = coef2*I314 - h*kx2*I323;
         t323 = coef2*I323 - h*ky2*I314;
         t324 = coef2*I324 + h*I313;
         t336 = coef2*I336 + ky2*I33 - h2*ky2*I324;
         t346 = coef2*I346 + h2*I323 + ky2*I34;
         t413 = coef2*I413 + h*kx2*ky2*I424;
         t414 = coef2*I414 - h*kx2*I423;
         t423 = coef2*I423 - h*ky2*I414;
         t424 = coef2*I424 + h*I413;
         t436 = coef2*I436 - h2*ky2*I424 + ky2*I43;
         t446 = coef2*I446 + h2*I423 + ky2*I44;
         cx_1 = - kx2*sx;
         sx_1 = cx;
         cy_1 = - ky2*sy;
         sy_1 = cy;
         dx_1 = h*sx;
         T = zeros666
           ((0, 0, 0) := t111,
            (0, 0, 1) := t112 + h*sx,
            (0, 0, 5) := t116,
            (0, 1, 1) := t122,
            (0, 1, 5) := t126,
            (0, 5, 5) := t166,
            (0, 2, 2) := t133,
            (0, 2, 3) := t134,
            (0, 3, 3) := t144,
            (1, 0, 0) := t211 - h*cx*cx_1,
            (1, 0, 1) := t212 + h*sx_1 - h*(sx*cx_1 + cx*sx_1),
            (1, 0, 5) := t216 - h*(dx*cx_1 + cx*dx_1),
            (1, 1, 1) := t222 - h*sx*sx_1,
            (1, 1, 5) := t226 - h*(sx*dx_1 + dx*sx_1),
            (1, 5, 5) := t266 - dx*h*dx_1,
            (1, 2, 2) := t233,
            (1, 2, 3) := t234,
            (1, 3, 3) := t244,
            (2, 0, 2) := t313,
            (2, 0, 3) := t314 + h*sy,
            (2, 1, 2) := t323,
            (2, 1, 3) := t324,
            (2, 2, 5) := t336,
            (2, 3, 5) := t346,
            (3, 0, 2) := t413 - h*cx*cy_1,
            (3, 0, 3) := t414 + (1 - cx)*h*sy_1,
            (3, 1, 2) := t423 - h*sx*cy_1,
            (3, 1, 3) := t424 - h*sx*sy_1,
            (3, 2, 5) := t436 - h*dx*cy_1,
            (3, 3, 5) := t446 - h*dx*sy_1);
         t511 = coef1*I511 + h*kx4*I522/2;
         t512 = 2*coef1*I512 - h*kx2*I512;
         t516 = 2*coef1*I516 + coef3*I51 - h2*kx2*I522;
         t522 = coef1*I522 + 0.5*h*I511;
         t526 = 2*coef1*I526 + coef3*I52 + h2*I512;
         t566 = coef1*I566 + coef3*I56 + 0.5*h3*I522 - h*I50;
         t533 = K2*I533 - ky2*h*I50/2;
         t534 = 2*K2*I534;
         t544 = K2*I544 - h*I50/2
     in if kx \<noteq> 0 \<and> 4*kx2 = 0 then None else
     let i566 = (if kx \<noteq> 0 then h2*(L - sx*cx)/(4*kx2) else h2*L3/6);
         T511 = t511 + 1/4*kx2*(L - cx*sx);
         T512 = t512 - (1/2)*kx2*sx2 + h*dx;
         T516 = t516 + h*(sx*cx - L)/2;
         T522 = t522 + (L + sx*cx)/4;
         T526 = t526 + h*sx2/2;
         T566 = t566 + i566;
         T533 = t533 + 1/4*ky2*(L - sy*cy);
         T534 = t534 - 1/2*ky2*sy2;
         T544 = t544 + (L + sy*cy)/4
     in Some (T
           ((4, 0, 0) := T511,
            (4, 0, 1) := T512 + h*dx,
            (4, 0, 5) := T516,
            (4, 1, 1) := T522,
            (4, 1, 5) := T526,
            (4, 5, 5) := T566,
            (4, 2, 2) := T533,
            (4, 2, 3) := T534,
            (4, 3, 3) := T544))))"

definition t_nnn :: "real \<Rightarrow> real \<Rightarrow> real \<Rightarrow> real \<Rightarrow> tensor option" where
  "t_nnn L h k1 k2 =
     do {
       b \<leftarrow> t_nnn_basis L h k1;
       A \<leftarrow> t_nnn_intA L h b;
       B \<leftarrow> t_nnn_intB L h b A;
       C \<leftarrow> t_nnn_intC L b;
       D \<leftarrow> t_nnn_intD L h b A C;
       t_nnn_tensor L h k2 b A B C D
     }"

section \<open>Hamiltonian evaluator and symplectic stepper\<close>

text \<open>
  \<^verbatim>\<open>H23\<close> (lines 486-519) on a Python list of numbers; reading \<^verbatim>\<open>vec_x[5]\<close> of a shorter
  list raises \<^verbatim>\<open>IndexError\<close>, which like a division by zero is the value \<^term>\<open>None\<close>.
  Divisors: \<^verbatim>\<open>beta\<close>, \<^verbatim>\<open>2.*beta\<close>, \<^verbatim>\<open>beta*(1. + beta)\<close>.
\<close>

definition H23 :: "real list \<Rightarrow> real \<Rightarrow> real \<Rightarrow> real \<Rightarrow> real \<Rightarrow> real \<Rightarrow> real list option" where
  "H23 vec_x h k1 k2 beta g_inv =
    (if length vec_x < 6 then None else
     let x = vec_x ! 0;
         px = vec_x ! 1;
         y = vec_x ! 2;
         py = vec_x ! 3;
         ps = vec_x ! 5;
         px2 = px*px;
         py2 = py*py;
         x2 = x*x;
         y2 = y*y
     in if beta = 0 \<or> 2*beta = 0 \<or> beta*(1 + beta) = 0 then None else
     let ps_beta = ps/beta;
         k = 1 + h*x - ps_beta;
         x1 = px*k;
         px1 = - (h*h + k1)*x + h*ps_beta
                + (- h*(px2 + py2) - (2*h*k1 + k2)*x2 + (h*k1 + k2)*y2)/2;
         y1 = py*k;
         py1 = k1*y + (h*k1 + k2)*x*y;
         sigma1 = - (h*x)/beta - ((px2 + py2)/(2*beta)) - g_inv*g_inv/(beta*(1 + beta))
     in Some [x1, px1, y1, py1, sigma1, 0])"

text \<open>
  \<^verbatim>\<open>verlet\<close> (lines 522-546).  The values it computes (lines 528-541) are
  \<open>verlet_terms\<close>: the new \<open>x1\<close> and \<open>y1\<close>, the new \<open>sigma\<close>, and the momentum
  derivatives \<open>px_d\<close> and \<open>py_d\<close>; \<open>verlet\<close> stores them into the list (lines 539-546).
  Divisors: \<^verbatim>\<open>beta\<close>, \<^verbatim>\<open>1. - step*h*px\<close>, \<^verbatim>\<open>2.*beta\<close>, \<^verbatim>\<open>beta*(1. + beta)\<close>.
\<close>

definition verlet_terms ::
  "real list \<Rightarrow> real \<Rightarrow> real \<Rightarrow> real \<Rightarrow> real \<Rightarrow> real \<Rightarrow> real \<Rightarrow> (real \<times> real \<times> real \<times> real \<times> real) option" where
  "verlet_terms vec_x step h k1 k2 beta g_inv =
    (if length vec_x < 6 then None else
     let x = vec_x ! 0;
         px = vec_x ! 1;
         y = vec_x ! 2;
         py = vec_x ! 3;
         sigma = vec_x ! 4;
         ps = vec_x ! 5;
         px2_py2 = px*px + py*py
     in if beta = 0 \<or> 1 - step*h*px = 0 \<or> 2*beta = 0 \<or> beta*(1 + beta) = 0 then None else
     let ps_beta = ps/beta;
         x1 = (x + step*px*(1 - ps_beta))/(1 - step*h*px);
         y1 = y + step*py*(1 + h*x1 - ps_beta);
         sigma_new = sigma + step*(- h*x1/beta - px2_py2/(2*beta) - g_inv*g_inv/(beta*(1 + beta)));
         px_d = - (h*h + k1 + (h*k1 + k2/2)*x1)*x1 + h*ps_beta
                 + (- h*px2_py2 + (h*k1 + k2)*y1*y1)/2;
         py_d = (k1 + (h*k1 + k2)*x1)*y1
     in Some (x1, y1, sigma_new, px_d, py_d))"

definition verlet :: "real list \<Rightarrow> real \<Rightarrow> real \<Rightarrow> real \<Rightarrow> real \<Rightarrow> real \<Rightarrow> real \<Rightarrow> real list option" where
  "verlet vec_x step h k1 k2 beta g_inv =
    (case verlet_terms vec_x step h k1 k2 beta g_inv of
       None \<Rightarrow> None
     | Some (x1, y1, sigma_new, px_d, py_d) \<Rightarrow>
         Some (vec_x[4 := sigma_new,
                     1 := vec_x ! 1 + step*px_d,
                     3 := vec_x ! 3 + step*py_d,
                     0 := x1,
                     2 := y1]))"

section \<open>Ensembles in numpy arrays\<close>

text \<open>
  The integrators work on numpy arrays, where a division by zero or the square root of a
  negative number raises nothing and yields a non-finite element.  An array element is
  a real number or \<open>NonFinite\<close> (an infinity or NaN); an operation with a non-finite
  operand yields \<open>NonFinite\<close>, which is exact for NaN.
\<close>

datatype fval = Fin real | NonFinite

instantiation fval :: "{zero, one, plus, minus, uminus, times, inverse}"
begin

definition zero_fval :: fval where "zero_fval = Fin 0"

definition one_fval :: fval where "one_fval = Fin 1"

fun plus_fval :: "fval \<Rightarrow> fval \<Rightarrow> fval" where
  "plus_fval (Fin a) (Fin b) = Fin (a + b)"
| "plus_fval _ _ = NonFinite"

fun minus_fval :: "fval \<Rightarrow> fval \<Rightarrow> fval" where
  "minus_fval (Fin a) (Fin b) = Fin (a - b)"
| "minus_fval _ _ = NonFinite"

fun uminus_fval :: "fval \<Rightarrow> fval" where
  "uminus_fval (Fin a) = Fin (- a)"
| "uminus_fval NonFinite = NonFinite"

fun times_fval :: "fval \<Rightarrow> fval \<Rightarrow> fval" where
  "times_fval (Fin a) (Fin b) = Fin (a*b)"
| "times_fval _ _ = NonFinite"

fun divide_fval :: "fval \<Rightarrow> fval \<Rightarrow> fval" where
  "divide_fval (Fin a) (Fin b) = (if b = 0 then NonFinite else Fin (a/b))"
| "divide_fval _ _ = NonFinite"

fun inverse_fval :: "fval \<Rightarrow> fval" where
  "inverse_fval (Fin a) = (if a = 0 then NonFinite else Fin (inverse a))"
| "inverse_fval NonFinite = NonFinite"

instance ..

end

text \<open>\<^verbatim>\<open>numpy.sqrt\<close>: NaN for a negative argument.\<close>

fun fsqrt :: "fval \<Rightarrow> fval" where
  "fsqrt (Fin a) = (if a < 0 then NonFinite else Fin (sqrt a))"
| "fsqrt NonFinite = NonFinite"

datatype error = ValueError | IndexError | ZeroDivisionError

record globals =
  m_e_GeV :: real
  m_e_eV :: real
  speed_of_light :: real

text \<open>
  The constants of \<^verbatim>\<open>ocelot.common.globals\<close> are not in the sources at hand; the functions
  take them as the parameter \<open>g\<close>.

  An ensemble of \<open>N\<close> particles is a flat array of \<open>6 N\<close> elements.  \<^verbatim>\<open>X[k::6]\<close> reads the
  \<open>k\<close>-th coordinate of every particle, \<^verbatim>\<open>X[k::6] = v\<close> writes it.  For an array whose
  length is not a multiple of 6 numpy's broadcasting decides between an error and a
  result; the model answers \<open>ValueError\<close> there.
\<close>

definition slice6 :: "nat \<Rightarrow> 'a list \<Rightarrow> 'a list" where
  "slice6 k X = map (\<lambda>i. X ! (6*i + k)) [0..<length X div 6]"

definition assign_slice6 :: "nat \<Rightarrow> 'a list \<Rightarrow> 'a list \<Rightarrow> 'a list" where
  "assign_slice6 k v X = map (\<lambda>i. if i mod 6 = k then v ! (i div 6) else X ! i) [0..<length X]"

text \<open>Python's \<^verbatim>\<open>int\<close> of a float truncates towards zero.\<close>

definition py_int :: "real \<Rightarrow> int" where
  "py_int r = (if 0 \<le> r then \<lfloor>r\<rfloor> else \<lceil>r\<rceil>)"

text \<open>\<^verbatim>\<open>numpy.linspace(start, stop, num)\<close>: \<open>num\<close> evenly spaced points, both ends included.\<close>

definition linspace :: "real \<Rightarrow> real \<Rightarrow> int \<Rightarrow> error + real list" where
  "linspace start stop num =
    (if num < 0 then Inl ValueError
     else Inr (map (\<lambda>i. start + real i*((stop - start)/real (nat num - 1))) [0..<nat num]))"

section \<open>Symplectic integrator\<close>

text \<open>
  Line 592 truncates a float64 quotient, \<^verbatim>\<open>int(z/step)\<close>, and truncation is not continuous:
  the rounding of that one division decides the number of steps where the quotient is
  next to an integer.  So the rounding of float64 division is kept there, as the
  parameter \<open>rnd\<close> from the exact quotient to the float64 result, and the literal
  \<^verbatim>\<open>0.005\<close> is the float64 it denotes.  What the statements below use of rounding to
  nearest is \<open>float_rounding\<close>: it is monotone, exact on the integers up to \<open>2\<^sup>5\<^sup>3\<close>, and
  within the relative error \<open>2\<^sup>-\<^sup>5\<^sup>3\<close> between 1 and \<open>2\<^sup>5\<^sup>3\<close>.
\<close>

definition step_0_005 :: real where
  "step_0_005 = 5764607523034235 / 2^60"

definition float_rounding :: "(real \<Rightarrow> real) \<Rightarrow> bool" where
  "float_rounding rnd \<longleftrightarrow>
     (\<forall>x y. x \<le> y \<longrightarrow> rnd x \<le> rnd y) \<and>
     (\<forall>k::int. \<bar>k\<bar> \<le> 2^53 \<longrightarrow> rnd (real_of_int k) = real_of_int k) \<and>
     (\<forall>x. 1 \<le> x \<and> x \<le> 2^53 \<longrightarrow> \<bar>rnd x - x\<bar> \<le> x / 2^53)"

text \<open>
  \<^verbatim>\<open>sym_map\<close>, lines 584-592: the nominal step and the number of grid points;
  \<^term>\<open>None\<close> when \<^verbatim>\<open>step == 0.\<close> and the ensemble is returned as it is.
\<close>

definition sym_map_n :: "(real \<Rightarrow> real) \<Rightarrow> real \<Rightarrow> real \<Rightarrow> real \<Rightarrow> real \<Rightarrow> (real \<times> int) option" where
  "sym_map_n rnd z h k1 k2 =
    (let step = (if h \<noteq> 0 \<or> k1 \<noteq> 0 \<or> k2 \<noteq> 0 then step_0_005 else z);
         step = (if step > z then z else step)
     in if step = 0 then None
        else Some (step, py_int (rnd (z/step)) + 1))"

text \<open>
  Lines 593-598: \<^verbatim>\<open>g_inv\<close> and \<^verbatim>\<open>beta\<close>.  Divisors: \<^verbatim>\<open>m_e_GeV\<close>, and \<^verbatim>\<open>gamma\<close> under the
  test \<^verbatim>\<open>gamma != 0.\<close>.
\<close>

definition sym_map_beta :: "globals \<Rightarrow> real \<Rightarrow> error + (real \<times> fval)" where
  "sym_map_beta g energy =
    (if m_e_GeV g = 0 then Inl ZeroDivisionError else
     let gamma = energy/m_e_GeV g;
         g_inv = (if gamma \<noteq> 0 then 1/gamma else 0);
         beta = (if gamma \<noteq> 0 then fsqrt (Fin (1 - g_inv*g_inv)) else Fin 1)
     in Inr (g_inv, beta))"

text \<open>
  Lines 599-600 and 617: the grid, the step the loop uses
  (\<^verbatim>\<open>step = z_array[1] - z_array[0]\<close>) and the number of times the loop runs
  (\<^verbatim>\<open>len(z_array) - 1\<close>).
\<close>

definition sym_map_grid :: "real \<Rightarrow> int \<Rightarrow> error + (nat \<times> real)" where
  "sym_map_grid z n =
    (case linspace 0 z n of
       Inl e \<Rightarrow> Inl e
     | Inr z_array \<Rightarrow>
         if length z_array < 2 then Inl IndexError
         else Inr (length z_array - 1, z_array ! 1 - z_array ! 0))"

type_synonym particle = "fval \<times> fval \<times> fval \<times> fval \<times> fval \<times> fval"

text \<open>
  Lines 619-625, the body of the loop, for one particle
  \<open>(x, px, y, py, sigma, ps_beta)\<close>; the arrays hold one such value for every particle
  and numpy applies the arithmetic to each.
\<close>

definition sym_step ::
  "real \<Rightarrow> real \<Rightarrow> real \<Rightarrow> fval \<Rightarrow> real \<Rightarrow> real \<Rightarrow> real \<Rightarrow> fval \<Rightarrow> particle \<Rightarrow> particle" where
  "sym_step step h k1 beta c1 c2 c3 c4 = (\<lambda>(x, px, y, py, sigma, ps_beta).
     let px2_py2 = px*px + py*py;
         x' = (x + Fin step*px*(1 - ps_beta))/(1 - Fin step*Fin h*px);
         y' = y + Fin step*py*(1 + Fin h*x' - ps_beta);
         sigma' = sigma + Fin step*(- Fin h*x'/beta - px2_py2/(Fin 2*beta) - c4);
         px' = px + Fin step*(Fin h*ps_beta + (- Fin h*px2_py2 + Fin c3*y'*y')/Fin 2
                               - (Fin c1 + Fin c2*x')*x');
         py' = py + Fin step*(Fin k1 + Fin c3*x')*y'
     in (x', px', y', py', sigma', ps_beta))"

text \<open>
  Lines 602-632: the coordinate arrays, the loop run \<open>count\<close> times with the step \<open>step\<close>,
  and the five arrays written back.
\<close>

definition sym_map_loop ::
  "fval list \<Rightarrow> real \<Rightarrow> real \<Rightarrow> real \<Rightarrow> real \<Rightarrow> fval \<Rightarrow> nat \<Rightarrow> real \<Rightarrow> fval list" where
  "sym_map_loop X h k1 k2 g_inv beta count step =
    (let x = slice6 0 X;
         px = slice6 1 X;
         y = slice6 2 X;
         py = slice6 3 X;
         sigma = slice6 4 X;
         ps = slice6 5 X;
         ps_beta = map (\<lambda>p. p/beta) ps;
         c1 = h*h + k1;
         c2 = h*k1 + k2/2;
         c3 = h*k1 + k2;
         c4 = Fin (g_inv*g_inv)/(beta*(1 + beta));
         vec = map (\<lambda>i. (x ! i, px ! i, y ! i, py ! i, sigma ! i, ps_beta ! i))
                 [0..<length X div 6];
         vec = ((map (sym_step step h k1 beta c1 c2 c3 c4)) ^^ count) vec
     in assign_slice6 4 (map (\<lambda>(x, px, y, py, sigma, ps_beta). sigma) vec)
       (assign_slice6 3 (map (\<lambda>(x, px, y, py, sigma, ps_beta). py) vec)
       (assign_slice6 2 (map (\<lambda>(x, px, y, py, sigma, ps_beta). y) vec)
       (assign_slice6 1 (map (\<lambda>(x, px, y, py, sigma, ps_beta). px) vec)
       (assign_slice6 0 (map (\<lambda>(x, px, y, py, sigma, ps_beta). x) vec) X)))))"

text \<open>\<^verbatim>\<open>sym_map\<close> (lines 582-632).\<close>

definition sym_map ::
  "globals \<Rightarrow> (real \<Rightarrow> real) \<Rightarrow> real \<Rightarrow> fval list \<Rightarrow> real \<Rightarrow> real \<Rightarrow> real \<Rightarrow> real \<Rightarrow> error + fval list" where
  "sym_map g rnd z X h k1 k2 energy =
    (case sym_map_n rnd z h k1 k2 of
       None \<Rightarrow> Inr X
     | Some (step0, n) \<Rightarrow>
         (case sym_map_beta g energy of
            Inl e \<Rightarrow> Inl e
          | Inr (g_inv, beta) \<Rightarrow>
              (case sym_map_grid z n of
                 Inl e \<Rightarrow> Inl e
               | Inr (count, step) \<Rightarrow>
                   if length X mod 6 \<noteq> 0 then Inl ValueError
                   else Inr (sym_map_loop X h k1 k2 g_inv beta count step))))"

section \<open>Field-line Runge-Kutta tracker\<close>

text \<open>\<^verbatim>\<open>moments\<close> (lines 686-695).\<close>

definition moments :: "fval \<Rightarrow> fval \<Rightarrow> fval \<Rightarrow> fval \<Rightarrow> fval \<Rightarrow> fval \<Rightarrow> fval \<times> fval" where
  "moments bx by Bx By Bz dzk =
    (let bx2 = bx*bx;
         by2 = by*by;
         bxy = bx*by;
         sq = fsqrt (1 + bx2 + by2);
         k = sq*dzk;
         mx = k*(by*Bz - By*(1 + bx2) + bxy*Bx);
         my = - k*(bx*Bz - Bx*(1 + by2) + bxy*By)
     in (mx, my))"

type_synonym field = "fval \<Rightarrow> fval \<Rightarrow> fval \<Rightarrow> fval \<times> fval \<times> fval"

text \<open>
  Lines 723-766, one pass of the loop for one particle: from the six values of block
  \<open>i\<close> to the field sample stored in block \<open>i\<close> and the six values of block \<open>i + 1\<close>.
  The field is sampled for each particle on its own: \<open>mag_field\<close> acts elementwise on the
  arrays it is given.
\<close>

definition rk_step :: "field \<Rightarrow> real \<Rightarrow> real \<Rightarrow> real \<Rightarrow> particle \<Rightarrow> (fval \<times> fval \<times> fval) \<times> particle" where
  "rk_step mag_field dz dzk dGamma2 = (\<lambda>(X, bxconst, Y, byconst, Z, pz).
     let bx = bxconst;
         by = byconst;
         kx1 = bx*Fin dz;
         ky1 = by*Fin dz;
         (Bx, By, Bz) = mag_field X Y Z;
         (mx1, my1) = moments bx by Bx By Bz (Fin dzk);
         B = (Bx, By, Bz);
         bx = bxconst + mx1/Fin 2;
         by = byconst + my1/Fin 2;
         kx2 = bx*Fin dz;
         ky2 = by*Fin dz;
         (Bx, By, Bz) = mag_field (X + kx1/Fin 2) (Y + ky1/Fin 2) (Z + Fin dz/Fin 2);
         (mx2, my2) = moments bx by Bx By Bz (Fin dzk);
         bx = bxconst + mx2/Fin 2;
         by = byconst + my2/Fin 2;
         kx3 = bx*Fin dz;
         ky3 = by*Fin dz;
         (Bx, By, Bz) = mag_field (X + kx2/Fin 2) (Y + ky2/Fin 2) (Z + Fin dz/Fin 2);
         (mx3, my3) = moments bx by Bx By Bz (Fin dzk);
         Z_n = Z + Fin dz;
         bx = bxconst + mx3;
         by = byconst + my3;
         kx4 = bx*Fin dz;
         ky4 = by*Fin dz;
         (Bx, By, Bz) = mag_field (X + kx3) (Y + ky3) Z_n;
         (mx4, my4) = moments bx by Bx By Bz (Fin dzk);
         X' = X + Fin (1/6)*(kx1 + Fin 2*(kx2 + kx3) + kx4);
         bx' = bxconst + Fin (1/6)*(mx1 + Fin 2*(mx2 + mx3) + mx4);
         Y' = Y + Fin (1/6)*(ky1 + Fin 2*(ky2 + ky3) + ky4);
         by' = byconst + Fin (1/6)*(my1 + Fin 2*(my2 + my3) + my4);
         pz' = Fin dGamma2 - (bx'*bx' + by'*by')/Fin 2
     in (B, (X', bx', Y', by', Z_n, pz')))"

text \<open>
  The column of \<^verbatim>\<open>u\<close> that belongs to one particle: blocks of nine rows, six coordinates
  and the field sample at them; \<open>n\<close> passes of the loop, then line 768 for the last block.
\<close>

fun rk_column :: "field \<Rightarrow> real \<Rightarrow> real \<Rightarrow> real \<Rightarrow> nat \<Rightarrow> particle \<Rightarrow> fval list" where
  "rk_column mag_field dz dzk dGamma2 0 (X, bx, Y, by, Z, pz) =
     (let (Bx, By, Bz) = mag_field X Y Z in [X, bx, Y, by, Z, pz, Bx, By, Bz])"
| "rk_column mag_field dz dzk dGamma2 (Suc n) (X, bx, Y, by, Z, pz) =
     (let ((Bx, By, Bz), s') = rk_step mag_field dz dzk dGamma2 (X, bx, Y, by, Z, pz)
      in [X, bx, Y, by, Z, pz, Bx, By, Bz] @ rk_column mag_field dz dzk dGamma2 n s')"

text \<open>
  \<^verbatim>\<open>rk_track_in_field\<close> (lines 698-769).  The result \<^verbatim>\<open>u\<close> is the list of its rows:
  \<^verbatim>\<open>u[r, c]\<close> is \<open>u ! r ! c\<close>.  Divisors (Python floats, so a zero raises):
  \<^verbatim>\<open>m_e_GeV\<close>, \<^verbatim>\<open>gamma*gamma\<close>, \<^verbatim>\<open>massElectron*mass*gamma\<close>.
\<close>

definition rk_track_in_field ::
  "globals \<Rightarrow> fval list \<Rightarrow> real \<Rightarrow> int \<Rightarrow> real \<Rightarrow> field \<Rightarrow> error + fval list list" where
  "rk_track_in_field g y0 l N energy mag_field =
    (case linspace 0 l N of
       Inl e \<Rightarrow> Inl e
     | Inr z \<Rightarrow>
         if length z < 2 then Inl IndexError else
         let h = z ! 1 - z ! 0;
             N = length z
         in if m_e_GeV g = 0 then Inl ZeroDivisionError else
         let gamma = energy/m_e_GeV g;
             charge = 1;
             mass = 1;
             cmm = speed_of_light g;
             massElectron = m_e_eV g;
             dz = h
         in if gamma*gamma = 0 \<or> massElectron*mass*gamma = 0 then Inl ZeroDivisionError else
         let dGamma2 = 1 - 0.5/(gamma*gamma);
             k = charge*cmm/(massElectron*mass*gamma);
             dzk = dz*k
         in if length y0 mod 6 \<noteq> 0 then Inl ValueError else
         let px = slice6 1 y0;
             py = slice6 3 y0;
             pz = map (\<lambda>(px, py). Fin dGamma2 - (px*px + py*py)/Fin 2) (zip px py);
             columns = map (\<lambda>c. rk_column mag_field dz dzk dGamma2 (N - 1)
                               (slice6 0 y0 ! c, slice6 1 y0 ! c, slice6 2 y0 ! c, slice6 3 y0 ! c,
                                Fin (z ! 0), pz ! c))
                         [0..<length y0 div 6]
         in Inr (map (\<lambda>r. map (\<lambda>col. col ! r) columns) [0..<N*9]))"

text \<open>\<^verbatim>\<open>rk_field\<close> (lines 772-785): the last block of the trajectory, written back.\<close>

definition rk_field ::
  "globals \<Rightarrow> fval list \<Rightarrow> real \<Rightarrow> int \<Rightarrow> real \<Rightarrow> field \<Rightarrow> error + fval list" where
  "rk_field g y0 l N energy mag_field =
    (case rk_track_in_field g y0 l N energy mag_field of
       Inl e \<Rightarrow> Inl e
     | Inr traj_data \<Rightarrow>
         Inr (assign_slice6 3 (traj_data ! (nat (N - 1)*9 + 3))
             (assign_slice6 2 (traj_data ! (nat (N - 1)*9 + 2))
             (assign_slice6 1 (traj_data ! (nat (N - 1)*9 + 1))
             (assign_slice6 0 (traj_data ! (nat (N - 1)*9 + 0)) y0)))))"

section \<open>Properties\<close>

subsection \<open>Matrix helpers\<close>

lemma sum_upt6: "(\<Sum>k\<in>{0..<6::nat}. f k) = f 0 + f 1 + f 2 + f 3 + f 4 + f 5"
  by (simp add: eval_nat_numeral)

lemma less6: "(i::nat) < 6 \<longleftrightarrow> i = 0 \<or> i = 1 \<or> i = 2 \<or> i = 3 \<or> i = 4 \<or> i = 5"
  by auto


lemma dot6_edge:
  "i < 6 \<Longrightarrow> j < 6 \<Longrightarrow>
   dot6 (eye6((Suc 0, 0) := a, (3, 2) := b)) (eye6((Suc 0, 0) := c, (3, 2) := d)) (i, j) =
     (if (i, j) = (1, 0) then a + c else if (i, j) = (3, 2) then b + d else eye6 (i, j))"
  unfolding dot6_def
  by (auto simp add: sum_upt6 less6 eye6_def)

subsection \<open>The linear edge matrix\<close>

lemma fringe_ent_R:
  "fringe_ent h k1 e hp gap fint = Some (R, T) \<Longrightarrow>
     R = eye6((1, 0) := h*tan e, (3, 2) := - h*tan (e - fringe_phi h e gap fint))"
  by (auto simp: fringe_ent_def fringe_phi_def Let_def split: if_splits)

lemma fringe_ext_R:
  "fringe_ext h k1 e hp gap fint = Some (R, T) \<Longrightarrow>
     R = eye6((1, 0) := h*tan e, (3, 2) := - h*tan (e - fringe_phi h e gap fint))"
  by (auto simp: fringe_ext_def fringe_phi_def Let_def split: if_splits)

text \<open>
  In exact arithmetic the two functions return unless \<open>cos e\<close> or \<open>cos (e - phi)\<close> is zero.
  No float64 angle is an odd multiple of \<open>\<pi>/2\<close>, and whether the entries stay finite in
  float64 is a matter of overflow, which this model does not have.
\<close>

lemma fringe_ent_Some_iff:
  "(\<exists>R T. fringe_ent h k1 e hp gap fint = Some (R, T)) \<longleftrightarrow>
     cos e \<noteq> 0 \<and> cos (e - fringe_phi h e gap fint) \<noteq> 0"
  by (auto simp: fringe_ent_def fringe_phi_def Let_def)

lemma fringe_ext_Some_iff:
  "(\<exists>R T. fringe_ext h k1 e hp gap fint = Some (R, T)) \<longleftrightarrow>
     cos e \<noteq> 0 \<and> cos (e - fringe_phi h e gap fint) \<noteq> 0"
  by (auto simp: fringe_ext_def fringe_phi_def Let_def)



text \<open>
  C6 as stated fails: entrance and exit carry the same vertical focusing term, so for
  \<open>e = 0\<close>, \<open>h = 1\<close>, \<open>gap = 1\<close>, \<open>fint = \<pi>/4\<close> the product has 2 at entry [3,2].
\<close>

theorem fringe_compose_counterexample:
  "map_option fst (fringe_ent 1 0 0 0 1 (pi/4)) = Some (eye6((1, 0) := 0, (3, 2) := 1)) \<and>
   map_option fst (fringe_ext 1 0 0 0 1 (pi/4)) = Some (eye6((1, 0) := 0, (3, 2) := 1)) \<and>
   dot6 (eye6((1, 0) := 0, (3, 2) := 1)) (eye6((1, 0) := 0, (3, 2) := 1)) (3, 2) = 2 \<and>
   eye6 (3, 2) = 0"
  by (simp add: fringe_ent_def fringe_ext_def cos_45 tan_45 dot6_edge) (simp add: eye6_def)

text \<open>
  C6, amended.  For pole angle \<open>e = 0\<close> and identical parameters, the product
  \<open>R_ext * R_ent\<close> is the identity on every entry but [3,2], where it is
  \<open>2*h*tan(fint*h*gap)\<close>; so it is the identity exactly when \<open>h*tan(fint*h*gap) = 0\<close>,
  as with the default \<open>gap = 0\<close> or \<open>fint = 0\<close>.
\<close>

theorem fringe_compose:
  assumes "fringe_ent h k1 0 hp gap fint = Some (Rn, Tn)"
      and "fringe_ext h k1 0 hp gap fint = Some (Rx, Tx)"
    shows "\<forall>i<6. \<forall>j<6. dot6 Rx Rn (i, j) =
             (if (i, j) = (3, 2) then 2*h*tan (fint*h*gap) else eye6 (i, j))"
proof -
  have n: "Rn = eye6((1, 0) := 0, (3, 2) := h*tan (fint*h*gap))"
    using fringe_ent_R [OF assms(1)] by (simp add: fringe_phi_def)
  have x: "Rx = eye6((1, 0) := 0, (3, 2) := h*tan (fint*h*gap))"
    using fringe_ext_R [OF assms(2)] by (simp add: fringe_phi_def)
  show ?thesis unfolding n x by (simp add: dot6_edge) (simp add: eye6_def)
qed

theorem fringe_compose_witness:
  "dot6 (eye6((1, 0) := 0, (3, 2) := 0)) (eye6((1, 0) := 0, (3, 2) := 0)) (3, 2) = 0 \<and>
   dot6 (eye6((1, 0) := 0, (3, 2) := 0)) (eye6((1, 0) := 0, (3, 2) := 0)) (2, 2) = 1"
proof -
  obtain T where n: "fringe_ent 2 1 0 3 0 0 = Some (eye6((1, 0) := 0, (3, 2) := 0), T)"
    by (simp add: fringe_ent_def)
  obtain T' where x: "fringe_ext 2 1 0 3 0 0 = Some (eye6((1, 0) := 0, (3, 2) := 0), T')"
    by (simp add: fringe_ext_def)
  from fringe_compose [OF n x] show ?thesis by (simp add: eye6_def)
qed

subsection \<open>Where the map builder is defined\<close>

lemma of_real_kx2_eq_0:
  "(complex_of_real k1 + complex_of_real h * complex_of_real h = 0) = (k1 + h*h = 0)"
  by (metis of_real_add of_real_mult of_real_eq_0_iff)

lemma t_nnn_basis_Some:
  "\<exists>kx ky cx sx cy sy dx dx_h.
     t_nnn_basis L h k1 =
       Some (k1 + h*h, - k1, (k1 + h*h)*(k1 + h*h), k1*k1, kx, ky, cx, sx, cy, sy, dx, dx_h) \<and>
     (kx = 0 \<longleftrightarrow> k1 + h*h = 0) \<and> (ky = 0 \<longleftrightarrow> k1 = 0)"
  by (simp add: t_nnn_basis_def Let_def of_real_kx2_eq_0)

lemma t_nnn_intA_None:
  "t_nnn_intA L h (kx2, ky2, kx4, ky4, kx, ky, cx, sx, cy, sy, dx, dx_h) = None \<longleftrightarrow>
     ky \<noteq> 0 \<and> ky2 = 0"
  by (simp add: t_nnn_intA_def Let_def)

lemma t_nnn_intB_None:
  "t_nnn_intB L h (kx2, ky2, kx4, ky4, kx, ky, cx, sx, cy, sy, dx, dx_h) A = None \<longleftrightarrow>
     kx \<noteq> 0 \<and> (kx2 = 0 \<or> kx4 = 0)"
  by (simp add: t_nnn_intB_def Let_def split_def)

lemma t_nnn_intC_None:
  "t_nnn_intC L (kx2, ky2, kx4, ky4, kx, ky, cx, sx, cy, sy, dx, dx_h) = None \<longleftrightarrow>
     (kx \<noteq> 0 \<and> ky \<noteq> 0 \<and> kx2 - 4*ky2 = 0) \<or> (kx \<noteq> 0 \<and> ky = 0 \<and> (kx2 = 0 \<or> kx4 = 0))"
  by (simp add: t_nnn_intC_def Let_def)

lemma t_nnn_intD_None:
  "t_nnn_intD L h (kx2, ky2, kx4, ky4, kx, ky, cx, sx, cy, sy, dx, dx_h) A C = None \<longleftrightarrow>
     (kx = 0 \<and> ky \<noteq> 0 \<and> (ky2 = 0 \<or> ky4 = 0)) \<or>
     (kx \<noteq> 0 \<and> (kx2 = 0 \<or> kx2 - 4*ky2 = 0))"
  by (auto simp add: t_nnn_intD_def Let_def split_def)

lemma t_nnn_tensor_None:
  "t_nnn_tensor L h k2 (kx2, ky2, kx4, ky4, kx, ky, cx, sx, cy, sy, dx, dx_h) A B C D = None \<longleftrightarrow>
     kx \<noteq> 0 \<and> kx2 = 0"
  by (simp add: t_nnn_tensor_def Let_def split_def)

text \<open>
  The only division by zero of \<^verbatim>\<open>t_nnn\<close> in exact arithmetic is by
  \<^verbatim>\<open>denom = kx2 - 4.*ky2\<close> in the branch \<^verbatim>\<open>kx != 0 and ky != 0\<close>, that is for \<open>h \<noteq> 0\<close> and
  \<open>k1 = - h\<^sup>2/5\<close>.
\<close>

lemma t_nnn_None_iff:
  "t_nnn L h k1 k2 = None \<longleftrightarrow> k1 + h*h \<noteq> 0 \<and> k1 \<noteq> 0 \<and> 5*k1 + h*h = 0"
proof -
  obtain kx ky cx sx cy sy dx dx_h where
    b: "t_nnn_basis L h k1 =
       Some (k1 + h*h, - k1, (k1 + h*h)*(k1 + h*h), k1*k1, kx, ky, cx, sx, cy, sy, dx, dx_h)"
    and kx: "kx = 0 \<longleftrightarrow> k1 + h*h = 0" and ky: "ky = 0 \<longleftrightarrow> k1 = 0"
    using t_nnn_basis_Some [of L h k1] by blast
  show ?thesis
    unfolding t_nnn_def b
    by (auto simp add: bind_eq_None_conv t_nnn_intA_None t_nnn_intB_None t_nnn_intC_None
        t_nnn_intD_None t_nnn_tensor_None kx ky)
qed

subsection \<open>The drift limit\<close>

lemma drift_basis:
  "t_nnn_basis L 0 0 = Some (0, 0, 0, 0, 0, 0, 1, L, 1, L, 0, L*L/2)"
  by (simp add: t_nnn_basis_def)

lemma drift_intA:
  "t_nnn_intA L 0 (0, 0, 0, 0, 0, 0, 1, L, 1, L, 0, L*L/2) \<noteq> None"
  by (simp add: t_nnn_intA_def Let_def)

lemma drift_intB:
  "t_nnn_intB L 0 (0, 0, 0, 0, 0, 0, 1, L, 1, L, 0, L*L/2) A =
     Some (0, L*L*L/6, 0, 0, 0, 0, 0, 0, 0, 0, 0, 0, 0, 0, 0, 0, 0)"
  by (simp add: t_nnn_intB_def split_def)

lemma drift_intC:
  "t_nnn_intC L (0, 0, 0, 0, 0, 0, 1, L, 1, L, 0, L*L/2) \<noteq> None"
  by (simp add: t_nnn_intC_def Let_def)

lemma drift_intD:
  "t_nnn_intD L 0 (0, 0, 0, 0, 0, 0, 1, L, 1, L, 0, L*L/2) A C = Some (0, 0, 0, 0, 0, 0, 0)"
  by (simp add: t_nnn_intD_def split_def)

lemma drift_tensor:
  "t_nnn_tensor L 0 0 (0, 0, 0, 0, 0, 0, 1, L, 1, L, 0, L*L/2) A B C D =
     Some (zeros666((4, 1, 1) := L/2, (4, 3, 3) := L/2))"
  by (simp add: t_nnn_tensor_def split_def fun_eq_iff zeros666_def)

lemma t_nnn_drift:
  "t_nnn L 0 0 0 = Some (zeros666((4, 1, 1) := L/2, (4, 3, 3) := L/2))"
proof -
  obtain A where A: "t_nnn_intA L 0 (0, 0, 0, 0, 0, 0, 1, L, 1, L, 0, L*L/2) = Some A"
    using drift_intA by blast
  obtain C where C: "t_nnn_intC L (0, 0, 0, 0, 0, 0, 1, L, 1, L, 0, L*L/2) = Some C"
    using drift_intC by blast
  show ?thesis
    by (simp add: t_nnn_def drift_basis A drift_intB C drift_intD drift_tensor)
qed

text \<open>
  C1.  For \<open>h = k1 = k2 = 0\<close> and every length \<open>L\<close> (in particular every \<open>L > 0\<close>),
  \<^verbatim>\<open>t_nnn\<close> evaluates no division by zero and returns the tensor whose only non-zero
  entries are \<open>T[4,1,1] = L/2\<close> and \<open>T[4,3,3] = L/2\<close>.
\<close>

theorem drift_limit:
  "t_nnn L 0 0 0 = Some (zeros666((4, 1, 1) := L/2, (4, 3, 3) := L/2))"
  by (rule t_nnn_drift)

subsection \<open>The pure sector bend\<close>

lemma csqrt_square_pos:
  "0 < h \<Longrightarrow> csqrt (complex_of_real h * complex_of_real h) = complex_of_real h"
proof -
  assume h: "0 < h"
  have "csqrt (complex_of_real (h*h)) = complex_of_real (sqrt (h*h))"
    by (rule of_real_sqrt [symmetric]) simp
  also have "sqrt (h*h) = h" using h by simp
  finally show ?thesis by simp
qed

lemma bend_basis:
  assumes "0 < h"
  shows "t_nnn_basis L h 0 =
     Some (h*h, 0, h*h*(h*h), 0, complex_of_real h, 0, cos (h*L), sin (h*L)/h, 1, L,
           h/(h*h)*(1 - cos (h*L)), (1 - cos (h*L))/(h*h))"
proof -
  have c: "Re (cos (complex_of_real h * complex_of_real L)) = cos (h*L)"
    by (metis Re_complex_of_real cos_of_real of_real_mult)
  have s: "Re (sin (complex_of_real h * complex_of_real L) / complex_of_real h) = sin (h*L)/h"
    by (metis Re_complex_of_real sin_of_real of_real_mult of_real_divide)
  have s0: "Re (sin (complex_of_real h * complex_of_real L)) = sin (h*L)"
    by (metis Re_complex_of_real sin_of_real of_real_mult)
  show ?thesis using assms
    by (simp add: t_nnn_basis_def Let_def csqrt_square_pos c s s0)
qed

lemma t_nnn_tensor_000:
  "t_nnn_tensor L h k2 (kx2, ky2, kx4, ky4, kx, ky, cx, sx, cy, sy, dx, dx_h) A B C D = Some T \<Longrightarrow>
     T (0, 0, 0) = (2*ky2*h - h*h*h - k2/2)*(fst A) + h*kx4*(fst (snd A))/2"
  by (auto simp add: t_nnn_tensor_def Let_def split_def split: if_splits)

lemma t_nnn_intA_I111:
  "t_nnn_intA L h (kx2, ky2, kx4, ky4, kx, ky, cx, sx, cy, sy, dx, dx_h) = Some A \<Longrightarrow>
     fst A = 1/3*(sx*sx + dx_h) \<and> fst (snd A) = dx_h*dx_h/3"
  by (auto simp add: t_nnn_intA_def Let_def split: if_splits)

lemma bend_algebra:
  fixes h s c :: real
  assumes "h \<noteq> 0" and "s*s + c*c = 1"
  shows "(2*0*h - h*h*h - 0/2)*(1/3*(s/h*(s/h) + (1 - c)/(h*h))) +
           h*(h*h*(h*h))*((1 - c)/(h*h)*((1 - c)/(h*h))/3)/2 = - (h/2)*(s*s)"
proof -
  have cc: "(1 - c)*(1 - c) = 2 - 2*c - s*s" using assms(2) by (simp add: algebra_simps)
  have "(2*0*h - h*h*h - 0/2)*(1/3*(s/h*(s/h) + (1 - c)/(h*h))) +
           h*(h*h*(h*h))*((1 - c)/(h*h)*((1 - c)/(h*h))/3)/2
        = - h*(s*s + (1 - c))/3 + h*((1 - c)*(1 - c))/6"
    using assms(1) by (simp add: field_simps)
  also have "\<dots> = - (h/2)*(s*s)"
    unfolding cc by (simp add: field_simps)
  finally show ?thesis .
qed

text \<open>For a pure sector bend of positive curvature, \<open>T[0,0,0] = - (h/2) sin\<^sup>2(h L)\<close>.\<close>

lemma bend_T000:
  assumes "0 < h"
  shows "map_option (\<lambda>T. T (0, 0, 0)) (t_nnn L h 0 0) = Some (- (h/2)*(sin (h*L))^2)"
proof -
  let ?b = "(h*h, 0, h*h*(h*h), 0, complex_of_real h, 0, cos (h*L), sin (h*L)/h, 1, L,
           h/(h*h)*(1 - cos (h*L)), (1 - cos (h*L))/(h*h))"
  have "t_nnn L h 0 0 \<noteq> None" using assms by (simp add: t_nnn_None_iff)
  then obtain T where T: "t_nnn L h 0 0 = Some T" by blast
  then obtain A B C D where A: "t_nnn_intA L h ?b = Some A"
    and TT: "t_nnn_tensor L h 0 ?b A B C D = Some T"
    unfolding t_nnn_def bend_basis [OF assms]
    by (auto split: Option.bind_splits)
  have "T (0, 0, 0) = - (h/2)*(sin (h*L)*sin (h*L))"
    using t_nnn_tensor_000 [OF TT] t_nnn_intA_I111 [OF A] assms
      bend_algebra [of h "sin (h*L)" "cos (h*L)"]
    by (simp add: power2_eq_square [symmetric])
  then show ?thesis by (simp add: T power2_eq_square)
qed

text \<open>
  C2.  For \<open>L = 1\<close>, \<open>h = 0.1\<close>, \<open>k1 = k2 = 0\<close>, \<^verbatim>\<open>t_nnn\<close> returns a tensor with
  \<open>T[0,0,0] = - 0.05 sin\<^sup>2(0.1)\<close>, the closed-form value \<open>- (h/2) sin\<^sup>2(h L)\<close>.
\<close>

theorem sector_bend_T000:
  "map_option (\<lambda>T. T (0, 0, 0)) (t_nnn 1 (1/10) 0 0) = Some (- (1/20) * (sin (1/10))^2)"
  using bend_T000 [of "1/10" 1] by simp

subsection \<open>Storage of the second-order tensor\<close>

lemma t_nnn_tensor_lower:
  assumes "t_nnn_tensor L h k2 b A B C D = Some T" and "k < j"
  shows "T (i, j, k) = 0"
  using assms unfolding t_nnn_tensor_def Let_def split_def zeros666_def
  by (auto split: if_splits)

lemma t_nnn_lower:
  "t_nnn L h k1 k2 = Some T \<Longrightarrow> k < j \<Longrightarrow> T (i, j, k) = 0"
  unfolding t_nnn_def
  by (auto split: Option.bind_splits dest: t_nnn_tensor_lower)

lemma fringe_ent_lower:
  "fringe_ent h k1 e hp gap fint = Some (R, T) \<Longrightarrow> k < j \<Longrightarrow> T (i, j, k) = 0"
  unfolding fringe_ent_def Let_def zeros666_def
  by (auto split: if_splits)

lemma fringe_ext_lower:
  "fringe_ext h k1 e hp gap fint = Some (R, T) \<Longrightarrow> k < j \<Longrightarrow> T (i, j, k) = 0"
  unfolding fringe_ext_def Let_def zeros666_def
  by (auto split: if_splits)

text \<open>
  C4 as stated fails on the stored array: \<^verbatim>\<open>fringe_ent\<close> with \<open>h = 1\<close>, \<open>e = 0\<close> writes
  \<open>T[3,1,2] = - 1\<close> and leaves \<open>T[3,2,1] = 0\<close>.
\<close>

theorem tensor_symmetry_counterexample:
  "map_option (\<lambda>(R, T). (T (3, 1, 2), T (3, 2, 1))) (fringe_ent 1 0 0 0 0 0) = Some (- 1, 0)"
  by (simp add: fringe_ent_def zeros666_def)

text \<open>
  C4, amended.  Whenever \<^verbatim>\<open>t_nnn\<close>, \<^verbatim>\<open>fringe_ent\<close> or \<^verbatim>\<open>fringe_ext\<close> returns, the tensor
  holds derived values only at entries with \<open>j \<le> k\<close>: every entry \<open>T[i,j,k]\<close> with
  \<open>j > k\<close> is zero.  The stored array is the upper half of the symmetric tensor.
\<close>

theorem tensor_upper_storage:
  "(t_nnn L h k1 k2 = Some T \<longrightarrow> (\<forall>i j k. k < j \<longrightarrow> T (i, j, k) = 0)) \<and>
   (fringe_ent h' k1' e hp gap fint = Some (R1, T1) \<longrightarrow> (\<forall>i j k. k < j \<longrightarrow> T1 (i, j, k) = 0)) \<and>
   (fringe_ext h' k1' e hp gap fint = Some (R2, T2) \<longrightarrow> (\<forall>i j k. k < j \<longrightarrow> T2 (i, j, k) = 0))"
proof (intro conjI impI allI)
  fix i j k :: nat
  assume "k < j"
  { assume "t_nnn L h k1 k2 = Some T"
    then show "T (i, j, k) = 0" using \<open>k < j\<close> by (rule t_nnn_lower) }
  { assume "fringe_ent h' k1' e hp gap fint = Some (R1, T1)"
    then show "T1 (i, j, k) = 0" using \<open>k < j\<close> by (rule fringe_ent_lower) }
  { assume "fringe_ext h' k1' e hp gap fint = Some (R2, T2)"
    then show "T2 (i, j, k) = 0" using \<open>k < j\<close> by (rule fringe_ext_lower) }
qed

theorem tensor_upper_storage_witness:
  "t_nnn 1 0 0 0 = Some (zeros666((4, 1, 1) := 1/2, (4, 3, 3) := 1/2)) \<and>
   (zeros666((4, 1, 1) := 1/2, (4, 3, 3) := 1/2)) (4, 3, 1) = 0 \<and>
   map_option (\<lambda>(R, T). T (3, 2, 1)) (fringe_ent 1 0 0 0 0 0) = Some 0 \<and>
   map_option (\<lambda>(R, T). T (3, 2, 1)) (fringe_ext 1 0 0 0 0 0) = Some 0"
proof -
  let ?T = "zeros666((4, 1, 1) := 1/2, (4, 3, 3) := 1/2)"
  have t: "t_nnn 1 0 0 0 = Some ?T"
    using t_nnn_drift [of 1] by simp
  obtain R1 T1 where n: "fringe_ent 1 0 0 0 0 0 = Some (R1, T1)"
    by (simp add: fringe_ent_def)
  obtain R2 T2 where x: "fringe_ext 1 0 0 0 0 0 = Some (R2, T2)"
    by (simp add: fringe_ext_def)
  note u = tensor_upper_storage [where L = 1 and h = 0 and ?k1.0 = 0 and ?k2.0 = 0 and T = ?T
      and h' = 1 and k1' = 0 and e = 0 and hp = 0 and gap = 0 and fint = 0
      and ?R1.0 = R1 and ?T1.0 = T1 and ?R2.0 = R2 and ?T2.0 = T2]
  have a: "?T (4, 3, 1) = 0" using u t by (meson one_less_numeral_iff semiring_norm(77))
  have b: "T1 (3, 2, 1) = 0" using u n by (meson one_less_numeral_iff semiring_norm(76))
  have c: "T2 (3, 2, 1) = 0" using u x by (meson one_less_numeral_iff semiring_norm(76))
  show ?thesis using t a b c n x by simp
qed

subsection \<open>The symplectic stepper and the Hamiltonian evaluator\<close>

lemma verlet_terms_Some_iff:
  "(\<exists>r. verlet_terms vec_x step h k1 k2 beta g_inv = Some r) \<longleftrightarrow>
     6 \<le> length vec_x \<and> beta \<noteq> 0 \<and> 1 + beta \<noteq> 0 \<and> 1 - step*h*(vec_x ! 1) \<noteq> 0"
  by (auto simp add: verlet_terms_def Let_def)

text \<open>
  C3.  Whenever \<^verbatim>\<open>verlet\<close> computes its updates (no division by zero: \<open>beta \<noteq> 0\<close>,
  \<open>1 + beta \<noteq> 0\<close>, \<open>1 - step*h*px \<noteq> 0\<close>), the new \<open>x1\<close> solves the linear equation
  \<open>x1 = x + step*px*(1 + h*x1 - ps/beta)\<close> in the current \<open>px\<close>; with \<open>d\<close> the value of
  \<^verbatim>\<open>H23\<close> at the state whose positions are replaced by \<open>x1\<close> and \<open>y1\<close>, the momentum
  derivatives \<open>px_d\<close> and \<open>py_d\<close> are the second and fourth components of \<open>d\<close>, the
  increment of \<open>sigma\<close> is \<open>step\<close> times its fifth component, and \<open>x1\<close> and \<open>y1\<close> advance
  by \<open>step\<close> times its first and third.
\<close>

theorem verlet_specialises_H23:
  assumes "verlet_terms vec_x step h k1 k2 beta g_inv = Some (x1, y1, sigma_new, px_d, py_d)"
  shows "\<exists>d. H23 (vec_x[0 := x1, 2 := y1]) h k1 k2 beta g_inv = Some d \<and>
           x1 = vec_x ! 0 + step*(vec_x ! 1)*(1 + h*x1 - vec_x ! 5/beta) \<and>
           x1 = vec_x ! 0 + step*(d ! 0) \<and>
           y1 = vec_x ! 2 + step*(d ! 2) \<and>
           px_d = d ! 1 \<and>
           py_d = d ! 3 \<and>
           sigma_new - vec_x ! 4 = step*(d ! 4) \<and>
           verlet vec_x step h k1 k2 beta g_inv =
             Some (vec_x[4 := sigma_new, 1 := vec_x ! 1 + step*px_d, 3 := vec_x ! 3 + step*py_d,
                         0 := x1, 2 := y1])"
proof -
  from assms have len: "6 \<le> length vec_x" and b: "beta \<noteq> 0" "1 + beta \<noteq> 0"
    and d: "1 - step*h*(vec_x ! 1) \<noteq> 0"
    using verlet_terms_Some_iff [of vec_x step h k1 k2 beta g_inv] by auto
  from assms len b d have x1: "x1 = (vec_x ! 0 + step*(vec_x ! 1)*(1 - vec_x ! 5/beta))/(1 - step*h*(vec_x ! 1))"
    and y1: "y1 = vec_x ! 2 + step*(vec_x ! 3)*(1 + h*x1 - vec_x ! 5/beta)"
    and s: "sigma_new = vec_x ! 4 + step*(- h*x1/beta - (vec_x ! 1*(vec_x ! 1) + vec_x ! 3*(vec_x ! 3))/(2*beta) - g_inv*g_inv/(beta*(1 + beta)))"
    and px: "px_d = - (h*h + k1 + (h*k1 + k2/2)*x1)*x1 + h*(vec_x ! 5/beta)
                 + (- h*(vec_x ! 1*(vec_x ! 1) + vec_x ! 3*(vec_x ! 3)) + (h*k1 + k2)*y1*y1)/2"
    and py: "py_d = (k1 + (h*k1 + k2)*x1)*y1"
    by (auto simp add: verlet_terms_def Let_def)
  have lin: "x1 = vec_x ! 0 + step*(vec_x ! 1)*(1 + h*x1 - vec_x ! 5/beta)"
  proof -
    have "x1*(1 - step*h*(vec_x ! 1)) = vec_x ! 0 + step*(vec_x ! 1)*(1 - vec_x ! 5/beta)"
      using d unfolding x1 by simp
    then show ?thesis by (simp add: algebra_simps)
  qed
  have H: "H23 (vec_x[0 := x1, 2 := y1]) h k1 k2 beta g_inv =
      Some [vec_x ! 1*(1 + h*x1 - vec_x ! 5/beta),
            - (h*h + k1)*x1 + h*(vec_x ! 5/beta)
                + (- h*(vec_x ! 1*(vec_x ! 1) + vec_x ! 3*(vec_x ! 3)) - (2*h*k1 + k2)*(x1*x1) + (h*k1 + k2)*(y1*y1))/2,
            vec_x ! 3*(1 + h*x1 - vec_x ! 5/beta),
            k1*y1 + (h*k1 + k2)*x1*y1,
            - (h*x1)/beta - ((vec_x ! 1*(vec_x ! 1) + vec_x ! 3*(vec_x ! 3))/(2*beta)) - g_inv*g_inv/(beta*(1 + beta)),
            0]"
  proof -
    have l: "0 < length vec_x" "Suc 0 < length vec_x" "2 < length vec_x" "3 < length vec_x"
        "5 < length vec_x"
      using len by auto
    show ?thesis using len b l by (simp add: H23_def Let_def nth_list_update)
  qed
  have v: "verlet vec_x step h k1 k2 beta g_inv =
             Some (vec_x[4 := sigma_new, 1 := vec_x ! 1 + step*px_d, 3 := vec_x ! 3 + step*py_d,
                         0 := x1, 2 := y1])"
    by (simp add: verlet_def assms)
  show ?thesis
    unfolding H
    apply (intro exI conjI, rule refl)
    subgoal by (rule lin)
    subgoal using lin by (simp add: algebra_simps)
    subgoal using y1 by (simp add: algebra_simps)
    subgoal unfolding px by (simp add: field_simps)
    subgoal unfolding py by (simp add: algebra_simps)
    subgoal unfolding s by (simp add: algebra_simps)
    subgoal by (rule v)
    done
qed

lemma verlet_terms_example:
  "verlet_terms [0, 1, 0, 0, 0, 0] (1/2) 1 0 0 1 0 = Some (1, 0, - (3/4), - (3/2), 0)"
  by (simp add: verlet_terms_def Let_def)

theorem verlet_specialises_H23_witness:
  "verlet_terms [0, 1, 0, 0, 0, 0] (1/2) 1 0 0 1 0 = Some (1, 0, - (3/4), - (3/2), 0) \<and>
   H23 [1, 1, 0, 0, 0, 0] 1 0 0 1 0 = Some [2, - (3/2), 0, 0, - (3/2), 0] \<and>
   verlet [0, 1, 0, 0, 0, 0] (1/2) 1 0 0 1 0 = Some [1, 1/4, 0, 0, - (3/4), 0]"
  using verlet_specialises_H23 [OF verlet_terms_example] verlet_terms_example
  by (simp add: H23_def Let_def)

subsection \<open>The step of the symplectic integrator\<close>

lemma sym_map_grid_ge2:
  assumes "1 \<le> m"
  shows "sym_map_grid z (m + 1) = Inr (nat m, z / real (nat m))"
proof -
  define zs where "zs = map (\<lambda>i. 0 + real i*((z - 0)/real (nat (m + 1) - 1))) [0..<nat (m + 1)]"
  have n: "nat (m + 1) = Suc (nat m)" using assms by simp
  have lin: "linspace 0 z (m + 1) = Inr zs"
    using assms by (simp add: linspace_def zs_def)
  have len: "length zs = Suc (nat m)" by (simp add: zs_def n)
  have e1: "zs ! 1 = z / real (nat m)"
    using assms by (simp add: zs_def n del: upt_Suc)
  have e0: "zs ! 0 = 0"
    using assms by (simp add: zs_def n del: upt_Suc)
  show ?thesis
    using e1 e0 len assms by (simp add: sym_map_grid_def lin)
qed

lemma float_rounding_id: "float_rounding (\<lambda>x. x)"
  by (simp add: float_rounding_def)

lemma float_rounding_one: "float_rounding rnd \<Longrightarrow> rnd 1 = 1"
proof -
  assume "float_rounding rnd"
  then have "rnd (real_of_int 1) = real_of_int 1"
    unfolding float_rounding_def by (metis abs_1 one_le_numeral one_le_power)
  then show ?thesis by simp
qed

lemma float_rounding_ge1:
  assumes "float_rounding rnd" and "1 \<le> q"
  shows "1 \<le> py_int (rnd q)"
proof -
  have "rnd 1 \<le> rnd q" using assms unfolding float_rounding_def by blast
  then have "1 \<le> rnd q" using float_rounding_one [OF assms(1)] by simp
  then show ?thesis unfolding py_int_def by simp
qed


lemma sym_map_n_pos:
  assumes "0 < z"
  shows "sym_map_n rnd z h k1 k2 =
           Some (if h \<noteq> 0 \<or> k1 \<noteq> 0 \<or> k2 \<noteq> 0 then min step_0_005 z else z,
                 py_int (rnd (z / (if h \<noteq> 0 \<or> k1 \<noteq> 0 \<or> k2 \<noteq> 0 then min step_0_005 z else z))) + 1)"
proof -
  have "0 < step_0_005" by (simp add: step_0_005_def)
  then show ?thesis using assms by (auto simp add: sym_map_n_def Let_def min_def)
qed

lemma sym_map_beta_Inr:
  "m_e_GeV g \<noteq> 0 \<Longrightarrow> \<exists>g_inv beta. sym_map_beta g energy = Inr (g_inv, beta)"
  by (simp add: sym_map_beta_def Let_def)





subsection \<open>The coordinates the integrators leave alone\<close>

lemma length_assign_slice6 [simp]: "length (assign_slice6 k v X) = length X"
  by (simp add: assign_slice6_def)

lemma nth_assign_slice6:
  "i < length X \<Longrightarrow> assign_slice6 k v X ! i = (if i mod 6 = k then v ! (i div 6) else X ! i)"
  by (simp add: assign_slice6_def)

lemma sym_map_n_Some:
  assumes "float_rounding rnd" and "sym_map_n rnd z h k1 k2 = Some (s, n)"
  shows "\<exists>m\<ge>1. n = m + 1"
proof (cases "0 < z")
  case True
  define s' where "s' = (if h \<noteq> 0 \<or> k1 \<noteq> 0 \<or> k2 \<noteq> 0 then min step_0_005 z else z)"
  have "0 < step_0_005" by (simp add: step_0_005_def)
  then have s: "0 < s'" "s' \<le> z" using True by (auto simp add: s'_def)
  then have "1 \<le> z/s'" by simp
  then have "1 \<le> py_int (rnd (z/s'))" by (rule float_rounding_ge1 [OF assms(1)])
  moreover have "sym_map_n rnd z h k1 k2 = Some (s', py_int (rnd (z/s')) + 1)"
    unfolding s'_def by (rule sym_map_n_pos [OF True])
  then have "n = py_int (rnd (z/s')) + 1" using assms(2) by simp
  ultimately show ?thesis by blast
next
  case False
  have "0 < step_0_005" by (simp add: step_0_005_def)
  then have "n = py_int (rnd 1) + 1" using assms(2) False
    by (auto simp add: sym_map_n_def Let_def split: if_splits)
  then have "n = 2" using float_rounding_one [OF assms(1)] by (simp add: py_int_def)
  then show ?thesis by (intro exI [of _ 1]) simp
qed

lemma sym_map_returns:
  assumes "float_rounding rnd" and "m_e_GeV g \<noteq> 0" and "length X mod 6 = 0"
  shows "\<exists>X'. sym_map g rnd z X h k1 k2 energy = Inr X'"
proof (cases "sym_map_n rnd z h k1 k2")
  case None
  then show ?thesis by (simp add: sym_map_def)
next
  case (Some a)
  obtain s n where a: "a = (s, n)" by (cases a)
  obtain m where m: "1 \<le> m" "n = m + 1"
    using sym_map_n_Some [OF assms(1), of z h k1 k2 s n] Some a by auto
  have g: "sym_map_grid z n = Inr (nat m, z / real (nat m))"
    unfolding m(2) by (rule sym_map_grid_ge2 [OF m(1)])
  obtain g_inv beta where gb: "sym_map_beta g energy = Inr (g_inv, beta)"
    using sym_map_beta_Inr [OF assms(2)] by blast
  show ?thesis using assms(3) by (simp add: sym_map_def Some a g gb)
qed

lemma sym_map_frame:
  assumes "sym_map g rnd z X h k1 k2 energy = Inr X'"
  shows "length X' = length X \<and> (\<forall>i<length X. i mod 6 = 5 \<longrightarrow> X' ! i = X ! i)"
  using assms unfolding sym_map_def sym_map_loop_def Let_def
  by (auto split: option.splits sum.splits if_splits prod.splits simp add: nth_assign_slice6)

lemma rk_field_frame:
  assumes "rk_field g y0 l N energy mag_field = Inr y0'"
  shows "length y0' = length y0 \<and>
         (\<forall>i<length y0. i mod 6 = 4 \<or> i mod 6 = 5 \<longrightarrow> y0' ! i = y0 ! i)"
  using assms unfolding rk_field_def
  by (auto split: sum.splits simp add: nth_assign_slice6)

subsection \<open>The Runge-Kutta tracker and non-finite field samples\<close>

lemma linspace_ge2:
  assumes "2 \<le> N"
  shows "\<exists>zs. linspace 0 l N = Inr zs \<and> length zs = nat N \<and> zs ! 0 = 0"
proof -
  have "0 < nat N" using assms by simp
  then show ?thesis using assms by (simp add: linspace_def del: upt_Suc)
qed

lemma rk_returns:
  assumes "2 \<le> N" "m_e_GeV g \<noteq> 0" "m_e_eV g \<noteq> 0" "energy \<noteq> 0" "length y0 mod 6 = 0"
  shows "\<exists>u. rk_track_in_field g y0 l N energy mag_field = Inr u"
proof -
  obtain zs where zs: "linspace 0 l N = Inr zs" "length zs = nat N"
    using linspace_ge2 [OF assms(1)] by blast
  have "\<not> length zs < 2" using zs(2) assms(1) by simp
  then show ?thesis using assms zs
    by (simp add: rk_track_in_field_def Let_def)
qed

lemma rk_field_returns:
  assumes "2 \<le> N" "m_e_GeV g \<noteq> 0" "m_e_eV g \<noteq> 0" "energy \<noteq> 0" "length y0 mod 6 = 0"
  shows "\<exists>y. rk_field g y0 l N energy mag_field = Inr y"
  using rk_returns [OF assms, of l mag_field] by (auto simp add: rk_field_def)











subsection \<open>Frame of the integrators\<close>

text \<open>
  C10.  Whenever \<^verbatim>\<open>sym_map\<close> returns, the array has its length and every element at an
  index 5 mod 6 (delta) is the one of the input; whenever \<^verbatim>\<open>rk_field\<close> returns, the same
  holds for the indices 4 mod 6 (sigma) and 5 mod 6.  Both return for every ensemble of
  \<open>6 N\<close> values with non-zero constants (lemmas \<open>sym_map_returns\<close>, \<open>rk_field_returns\<close>).
\<close>

theorem delta_frame:
  "(sym_map g rnd z X h k1 k2 energy = Inr X' \<longrightarrow>
      length X' = length X \<and> (\<forall>i<length X. i mod 6 = 5 \<longrightarrow> X' ! i = X ! i)) \<and>
   (rk_field g' y0 l N energy' mag_field = Inr y0' \<longrightarrow>
      length y0' = length y0 \<and>
      (\<forall>i<length y0. i mod 6 = 4 \<or> i mod 6 = 5 \<longrightarrow> y0' ! i = y0 ! i))"
  using sym_map_frame [of g rnd z X h k1 k2 energy X']
    rk_field_frame [of g' y0 l N energy' mag_field y0'] by blast

theorem delta_frame_witness:
  "\<exists>X' y'. sym_map \<lparr>m_e_GeV = 1, m_e_eV = 1, speed_of_light = 1\<rparr> (\<lambda>x. x) (3/256)
              [Fin 1, Fin 2, Fin 3, Fin 4, Fin 5, Fin 6] 1 0 0 1 = Inr X' \<and>
           X' ! 5 = Fin 6 \<and>
           rk_field \<lparr>m_e_GeV = 1, m_e_eV = 1, speed_of_light = 1\<rparr>
              [Fin 1, Fin 2, Fin 3, Fin 4, Fin 5, Fin 6] 1 2 1 (\<lambda>x y z. (Fin 0, Fin 1, Fin 0))
              = Inr y' \<and>
           y' ! 4 = Fin 5 \<and> y' ! 5 = Fin 6"
proof -
  let ?g = "\<lparr>m_e_GeV = 1, m_e_eV = 1, speed_of_light = 1\<rparr>"
  let ?X = "[Fin 1, Fin 2, Fin 3, Fin 4, Fin 5, Fin 6]"
  let ?f = "\<lambda>x y z :: fval. (Fin 0, Fin 1, Fin 0)"
  obtain X' where X': "sym_map ?g (\<lambda>x. x) (3/256) ?X 1 0 0 1 = Inr X'"
    using sym_map_returns [OF float_rounding_id, of ?g ?X "3/256" 1 0 0 1] by auto
  obtain y' where y': "rk_field ?g ?X 1 2 1 ?f = Inr y'"
    using rk_field_returns [of 2 ?g 1 ?X 1 ?f] by auto
  from delta_frame [of ?g "\<lambda>x. x" "3/256" ?X 1 0 0 1 X' ?g ?X 1 2 1 ?f y'] X' y'
  have f: "\<forall>i<length ?X. i mod 6 = 5 \<longrightarrow> X' ! i = ?X ! i"
    and r: "\<forall>i<length ?X. i mod 6 = 4 \<or> i mod 6 = 5 \<longrightarrow> y' ! i = ?X ! i"
    by blast+
  have "X' ! 5 = ?X ! 5" using f [rule_format, of 5] by simp
  moreover have "y' ! 4 = ?X ! 4" using r [rule_format, of 4] by simp
  moreover have "y' ! 5 = ?X ! 5" using r [rule_format, of 5] by simp
  ultimately have "X' ! 5 = Fin 6 \<and> y' ! 4 = Fin 5 \<and> y' ! 5 = Fin 6" by simp
  then show ?thesis using X' y' by simp
qed

end
